theory Spec2Isabelle
  imports Complex_Main "HOL-Library.Sublist"
begin

section \<open>Data model (app/models/common.py, app/config.py)\<close>

text \<open>
  A Python float is modelled as the real number it denotes (no NaN, no infinity), so
  comparisons are the comparisons of the code. The sums, differences and products of the
  state machine and of the filters are taken exactly; the quotient of \<open>_should_fallback\<close>,
  whose integer part decides a reason, is rounded to the nearest double, as the division
  of the code is. A \<open>datetime\<close> is an integer number of microseconds, the resolution of the
  Python type, so the difference of two of them is a \<open>timedelta\<close> in microseconds.
\<close>

type_synonym datetime = int
type_synonym timedelta = int
type_synonym bytes = "nat list"

definition timedelta_ms :: "int \<Rightarrow> timedelta" where
  "timedelta_ms n = n * 1000"

definition total_seconds :: "timedelta \<Rightarrow> real" where
  "total_seconds d = real_of_int d / 1000000"

text \<open>\<open>datetime.fromtimestamp(offset_ms / 1000)\<close>, as the tests build their readings.\<close>

definition at_ms :: "int \<Rightarrow> datetime" where
  "at_ms n = n * 1000"

record settings =
  enable_main_server_publish :: bool
  min_fruit_weight :: real
  significant_delta :: real
  weight_noise_epsilon :: real
  stable_window_ms :: int
  min_scan_interval_ms :: int
  fruit_detector_primary_imgsz :: int
  fruit_detector_fallback_imgsz :: int
  fruit_detector_confidence_guard :: real
  fruit_detector_min_bbox_area_ratio :: real
  fruit_expected_weight_per_fruit :: real
  fruit_class_thresholds :: "string \<rightharpoonup> real"
  log_discarded_detections_detail :: bool

text \<open>The defaults of the \<open>Settings\<close> fields.\<close>

definition default_settings :: settings where
  "default_settings = \<lparr>
     enable_main_server_publish = False,
     min_fruit_weight = 30,
     significant_delta = 20,
     weight_noise_epsilon = 5,
     stable_window_ms = 400,
     min_scan_interval_ms = 2000,
     fruit_detector_primary_imgsz = 320,
     fruit_detector_fallback_imgsz = 416,
     fruit_detector_confidence_guard = 30 / 100,
     fruit_detector_min_bbox_area_ratio = 1 / 1000,
     fruit_expected_weight_per_fruit = 100,
     fruit_class_thresholds =
       [''apple'' \<mapsto> 55 / 100, ''banana'' \<mapsto> 40 / 100, ''tomato'' \<mapsto> 60 / 100],
     log_discarded_detections_detail = False \<rparr>"

record weight_reading =
  grams :: real
  timestamp :: datetime

datatype scan_state = IDLE | ACTIVE

datatype transition_label = NONE | IDLE_to_ACTIVE | ACTIVE_to_IDLE

record scan_decision =
  decision_state :: scan_state
  scan_requested :: bool
  transition :: transition_label

record bounding_box =
  x_min :: real
  y_min :: real
  x_max :: real
  y_max :: real

record defect_info =
  defect_type :: string
  defect_confidence :: real
  segmentation :: "(real \<times> real) list option"

record fruit_detection =
  fruit_id :: string
  fruit_class :: string
  confidence :: real
  bbox :: bounding_box

record fruit_detections =
  detections_image_id :: string
  detected_fruits :: "fruit_detection list"

record defect_detection_result =
  defect_image_id :: string
  defect_fruit_id :: string
  detected_defects :: "defect_info list"

record fruit_summary =
  summary_fruit_id :: string
  summary_fruit_class :: string
  summary_confidence :: real
  summary_bbox :: bounding_box
  defects :: "defect_info list"

record scan_result =
  session_id :: string
  image_id :: string
  result_timestamp :: datetime
  weight_grams :: real
  fruits :: "fruit_summary list"

record camera_capture_response =
  capture_image_id :: string
  image_url :: "string option"
  image_path :: "string option"
  capture_timestamp :: datetime

text \<open>Python's \<open>int\<close> on a float truncates toward zero.\<close>

definition py_int :: "real \<Rightarrow> int" where
  "py_int x = (if x \<ge> 0 then \<lfloor>x\<rfloor> else \<lceil>x\<rceil>)"

text \<open>
  The division of two floats: the exact quotient rounded to the nearest IEEE 754 double,
  ties to the even significand. A positive real is written \<open>z * 2 ^ k\<close> with
  \<open>2 ^ 52 \<le> z < 2 ^ 53\<close>, or with \<open>k = - 1074\<close> and a smaller \<open>z\<close> in the subnormal range,
  and \<open>z\<close> is rounded to an integer. The exponent is not bounded above: a quotient
  beyond the largest double, where the code gets infinity, is outside the model.
\<close>

function scale_down :: "real \<Rightarrow> int \<Rightarrow> real \<times> int" where
  "scale_down y e = (if y \<ge> 2 ^ 53 then scale_down (y / 2) (e + 1) else (y, e))"
  by pat_completeness auto
termination
proof (relation "measure (\<lambda>(y, e). nat \<lfloor>y\<rfloor>)")
  show "wf (measure (\<lambda>(y, e). nat \<lfloor>y\<rfloor>))" by simp
next
  fix y :: real and e :: int
  assume big: "2 ^ 53 \<le> y"
  then have "y / 2 \<le> y - 1" by simp
  then have "\<lfloor>y / 2\<rfloor> \<le> \<lfloor>y - 1\<rfloor>" by (rule floor_mono)
  then have "\<lfloor>y / 2\<rfloor> < \<lfloor>y\<rfloor>" by simp
  moreover from big have "0 < \<lfloor>y\<rfloor>" by simp
  ultimately show "((y / 2, e + 1), (y, e)) \<in> measure (\<lambda>(y, e). nat \<lfloor>y\<rfloor>)"
    by simp
qed

function scale_up :: "real \<Rightarrow> int \<Rightarrow> real \<times> int" where
  "scale_up y e = (if y < 2 ^ 52 \<and> e > - 1074 then scale_up (2 * y) (e - 1) else (y, e))"
  by pat_completeness auto
termination
  by (relation "measure (\<lambda>(y, e). nat (e + 1074))") auto

declare scale_down.simps [simp del] scale_up.simps [simp del]

definition round_half_even :: "real \<Rightarrow> int" where
  "round_half_even y =
     (let n = \<lfloor>y\<rfloor>; r = y - of_int n
      in if r < 1 / 2 then n else if r > 1 / 2 then n + 1 else if even n then n else n + 1)"

definition pow2 :: "int \<Rightarrow> real" where
  "pow2 e = (if e \<ge> 0 then 2 ^ nat e else 1 / 2 ^ nat (- e))"

definition round_positive :: "real \<Rightarrow> real" where
  "round_positive x =
     (case scale_down x 0 of (y, e) \<Rightarrow>
        (case scale_up y e of (z, k) \<Rightarrow> of_int (round_half_even z) * pow2 k))"

definition round_to_double :: "real \<Rightarrow> real" where
  "round_to_double x =
     (if x = 0 then 0 else if x > 0 then round_positive x else - round_positive (- x))"

definition float_div :: "real \<Rightarrow> real \<Rightarrow> real" where
  "float_div x y = round_to_double (x / y)"

text \<open>\<open>BoundingBox.as_tuple\<close>.\<close>

definition as_tuple :: "bounding_box \<Rightarrow> int \<times> int \<times> int \<times> int" where
  "as_tuple b = (py_int (x_min b), py_int (y_min b), py_int (x_max b), py_int (y_max b))"

text \<open>
  The exceptions the pipeline can meet: \<open>ServiceError\<close> of the clients
  (app/services/base.py), the validation error of a response, \<open>ValueError\<close>, and the
  errors of the image library. All are subclasses of \<open>Exception\<close>, which is what the
  handlers of the orchestrator catch.
\<close>

datatype exn =
  ServiceError string
  | ValidationError string
  | ValueError string
  | OSError string

text \<open>A field that is \<open>None\<close> or the empty string is falsy.\<close>

fun truthy :: "string option \<Rightarrow> string option" where
  "truthy None = None"
| "truthy (Some s) = (if s = [] then None else Some s)"

text \<open>\<open>CameraCaptureResponse.resolved_path\<close>.\<close>

definition resolved_path :: "camera_capture_response \<Rightarrow> exn + string" where
  "resolved_path c =
     (case truthy (image_path c) of
        Some p \<Rightarrow> Inr p
      | None \<Rightarrow>
          (case truthy (image_url c) of
             Some u \<Rightarrow> Inr u
           | None \<Rightarrow> Inl (ValueError ''Camera did not provide image location'')))"

section \<open>Weight state machine (app/core/state_machine.py)\<close>

record machine =
  state :: scan_state
  history :: "weight_reading list"
  last_scan_at :: "datetime option"
  last_scan_weight :: real

text \<open>\<open>WeightStateMachine.__init__\<close>.\<close>

definition init_machine :: machine where
  "init_machine = \<lparr> state = IDLE, history = [], last_scan_at = None, last_scan_weight = 0 \<rparr>"

text \<open>\<open>_prune_history\<close>: pop from the left while the front reading is older than the window.\<close>

fun prune_loop :: "timedelta \<Rightarrow> datetime \<Rightarrow> weight_reading list \<Rightarrow> weight_reading list" where
  "prune_loop window now [] = []"
| "prune_loop window now (r # rs) =
     (if now - timestamp r > window then prune_loop window now rs else r # rs)"

definition prune_history :: "settings \<Rightarrow> datetime \<Rightarrow> weight_reading list \<Rightarrow> weight_reading list" where
  "prune_history cfg now h = prune_loop (timedelta_ms (stable_window_ms cfg)) now h"

text \<open>Python's \<open>max\<close>, \<open>min\<close> and \<open>statistics.fmean\<close> on a non-empty list of floats.\<close>

fun max_of :: "real list \<Rightarrow> real" where
  "max_of [] = 0"
| "max_of (w # ws) = foldl max w ws"

fun min_of :: "real list \<Rightarrow> real" where
  "min_of [] = 0"
| "min_of (w # ws) = foldl min w ws"

definition fmean :: "real list \<Rightarrow> real" where
  "fmean ws = sum_list ws / real (length ws)"

text \<open>\<open>_stable_weight\<close>; both list functions are only reached with two readings or more.\<close>

definition stable_weight :: "settings \<Rightarrow> weight_reading list \<Rightarrow> real option" where
  "stable_weight cfg h =
     (if length h < 2 then None
      else let weights = map grams h in
        if max_of weights - min_of weights > weight_noise_epsilon cfg then None
        else Some (fmean weights))"

definition significant_delta_reached :: "settings \<Rightarrow> machine \<Rightarrow> real \<Rightarrow> bool" where
  "significant_delta_reached cfg m weight =
     (\<bar>weight - last_scan_weight m\<bar> \<ge> significant_delta cfg)"

definition scan_interval_respected :: "settings \<Rightarrow> machine \<Rightarrow> datetime \<Rightarrow> bool" where
  "scan_interval_respected cfg m now =
     (case last_scan_at m of
        None \<Rightarrow> True
      | Some t \<Rightarrow> total_seconds (now - t) * 1000 \<ge> real_of_int (min_scan_interval_ms cfg))"

definition mark_scan_if_allowed :: "settings \<Rightarrow> machine \<Rightarrow> real \<Rightarrow> datetime \<Rightarrow> bool \<times> machine" where
  "mark_scan_if_allowed cfg m weight now =
     (if scan_interval_respected cfg m now
      then (True, m\<lparr> last_scan_at := Some now, last_scan_weight := weight \<rparr>)
      else (False, m))"

text \<open>\<open>process\<close>: the decision and the machine after the reading.\<close>

definition process :: "settings \<Rightarrow> machine \<Rightarrow> weight_reading \<Rightarrow> scan_decision \<times> machine" where
  "process cfg m0 reading =
     (let m = m0\<lparr> history := prune_history cfg (timestamp reading) (history m0 @ [reading]) \<rparr> in
      case stable_weight cfg (history m) of
        None \<Rightarrow>
          (\<lparr> decision_state = state m, scan_requested = False, transition = NONE \<rparr>, m)
      | Some w \<Rightarrow>
          if state m = IDLE \<and> w \<ge> min_fruit_weight cfg then
            (let (req, m') = mark_scan_if_allowed cfg (m\<lparr> state := ACTIVE \<rparr>) w (timestamp reading)
             in (\<lparr> decision_state = ACTIVE, scan_requested = req, transition = IDLE_to_ACTIVE \<rparr>, m'))
          else if state m = ACTIVE then
            (if w < min_fruit_weight cfg then
               (\<lparr> decision_state = IDLE, scan_requested = False, transition = ACTIVE_to_IDLE \<rparr>,
                m\<lparr> state := IDLE \<rparr>)
             else if significant_delta_reached cfg m w
                     \<and> scan_interval_respected cfg m (timestamp reading) then
               (\<lparr> decision_state = ACTIVE, scan_requested = True, transition = NONE \<rparr>,
                m\<lparr> last_scan_at := Some (timestamp reading), last_scan_weight := w \<rparr>)
             else
               (\<lparr> decision_state = ACTIVE, scan_requested = False, transition = NONE \<rparr>, m))
          else
            (\<lparr> decision_state = state m, scan_requested = False, transition = NONE \<rparr>, m))"

text \<open>One machine fed a list of readings in order: the decisions and the final machine.\<close>

fun run :: "settings \<Rightarrow> machine \<Rightarrow> weight_reading list \<Rightarrow> scan_decision list \<times> machine" where
  "run cfg m [] = ([], m)"
| "run cfg m (r # rs) =
     (case process cfg m r of (d, m') \<Rightarrow>
        (case run cfg m' rs of (ds, m'') \<Rightarrow> (d # ds, m'')))"

definition decisions :: "settings \<Rightarrow> machine \<Rightarrow> weight_reading list \<Rightarrow> scan_decision list" where
  "decisions cfg m rs = fst (run cfg m rs)"

text \<open>The timestamps of the readings whose decision requested a scan, in order.\<close>

definition scan_times :: "settings \<Rightarrow> machine \<Rightarrow> weight_reading list \<Rightarrow> datetime list" where
  "scan_times cfg m rs =
     map (timestamp \<circ> fst) (filter (scan_requested \<circ> snd) (zip rs (decisions cfg m rs)))"

definition reading :: "real \<Rightarrow> int \<Rightarrow> weight_reading" where
  "reading w offset_ms = \<lparr> grams = w, timestamp = at_ms offset_ms \<rparr>"

section \<open>Scan pipeline (app/core/orchestrator.py)\<close>

text \<open>
  The collaborators of the orchestrator are outside the program: the camera, the two
  detectors, the two publishers, the image library, the clock and the UUID source. Each
  is a field of \<open>world\<close> giving the outcome of a call from its arguments, \<open>Inl\<close> an
  exception raised by the call. The resolution \<open>PxP\<close> asked of the camera is the pair
  \<open>(P, P)\<close>; \<open>image_size\<close> is the construction of the \<open>ImageCropper\<close> followed by its
  \<open>size\<close>, and \<open>crop\<close> its \<open>crop\<close> on the same bytes; \<open>utcnow\<close> is the clock read by the
  route and \<open>now_utc\<close> the one read for the result. The two publish requests of one scan
  are in flight together; which of them completes first is the last field.
\<close>

record world =
  uuid4 :: string
  utcnow :: datetime
  now_utc :: datetime
  capture_image :: "int \<times> int \<Rightarrow> exn + camera_capture_response"
  fetch_image_binary :: "string \<Rightarrow> exn + bytes"
  image_size :: "bytes \<Rightarrow> exn + int \<times> int"
  crop :: "bytes \<Rightarrow> int \<times> int \<times> int \<times> int \<Rightarrow> exn + bytes"
  detect_fruits :: "string \<Rightarrow> bytes \<Rightarrow> int \<Rightarrow> exn + fruit_detections"
  detect_defects :: "string \<Rightarrow> string \<Rightarrow> bytes \<Rightarrow> string \<Rightarrow> exn + defect_detection_result"
  ui_publish :: "scan_result \<Rightarrow> exn + unit"
  main_server_publish :: "scan_result \<Rightarrow> exn + unit"
  main_publish_completes_first :: bool

text \<open>
  What a run leaves behind, in the order it happens: the calls to the two publishers, the
  first and the last log line of \<open>execute_scan\<close>, and the HTTP response of the route.
\<close>

datatype event =
  ScanStarted string real
  | UiPublish scan_result
  | MainServerPublish scan_result
  | ScanFinished string nat
  | ScanFailed string exn
  | Responded "(string \<times> string) list"

subsection \<open>The two filters\<close>

text \<open>
  \<open>_filter_detections_by_class_threshold\<close>: the loop appends the detections that pass to
  \<open>valid_detections\<close>; \<open>thresholds.get(class_name, fallback_threshold)\<close>.
\<close>

definition class_threshold :: "settings \<Rightarrow> fruit_detection \<Rightarrow> real" where
  "class_threshold cfg detection =
     (case fruit_class_thresholds cfg (fruit_class detection) of
        Some t \<Rightarrow> t
      | None \<Rightarrow> fruit_detector_confidence_guard cfg)"

fun class_threshold_loop ::
  "settings \<Rightarrow> fruit_detection list \<Rightarrow> fruit_detection list \<Rightarrow> fruit_detection list" where
  "class_threshold_loop cfg valid_detections [] = valid_detections"
| "class_threshold_loop cfg valid_detections (detection # rest) =
     (if confidence detection \<ge> class_threshold cfg detection
      then class_threshold_loop cfg (valid_detections @ [detection]) rest
      else class_threshold_loop cfg valid_detections rest)"

definition filter_detections_by_class_threshold ::
  "settings \<Rightarrow> fruit_detection list \<Rightarrow> fruit_detection list" where
  "filter_detections_by_class_threshold cfg detections =
     (if detections = [] then [] else class_threshold_loop cfg [] detections)"

text \<open>\<open>_filter_detections_by_bbox_area\<close>; \<open>area_ratio\<close> is only logged.\<close>

definition bbox_area :: "fruit_detection \<Rightarrow> real" where
  "bbox_area detection =
     (x_max (bbox detection) - x_min (bbox detection))
       * (y_max (bbox detection) - y_min (bbox detection))"

fun bbox_area_loop ::
  "real \<Rightarrow> fruit_detection list \<Rightarrow> fruit_detection list \<Rightarrow> fruit_detection list" where
  "bbox_area_loop min_area valid_detections [] = valid_detections"
| "bbox_area_loop min_area valid_detections (detection # rest) =
     (if bbox_area detection \<ge> min_area
      then bbox_area_loop min_area (valid_detections @ [detection]) rest
      else bbox_area_loop min_area valid_detections rest)"

definition filter_detections_by_bbox_area ::
  "settings \<Rightarrow> fruit_detection list \<Rightarrow> int \<Rightarrow> fruit_detection list" where
  "filter_detections_by_bbox_area cfg detections image_area =
     (if detections = [] then []
      else bbox_area_loop
             (real_of_int image_area * fruit_detector_min_bbox_area_ratio cfg) [] detections)"

subsection \<open>The fallback decision\<close>

text \<open>
  \<open>_should_fallback\<close>: the reason, or \<open>None\<close>. The expected count is \<open>int\<close> of the
  float quotient (line 372).
\<close>

definition should_fallback ::
  "settings \<Rightarrow> fruit_detection list \<Rightarrow> fruit_detection list \<Rightarrow> real \<Rightarrow> string option" where
  "should_fallback cfg detections raw_detections weight =
     (let min_weight = min_fruit_weight cfg;
          confidence_guard = fruit_detector_confidence_guard cfg;
          expected_weight_per_fruit = fruit_expected_weight_per_fruit cfg
      in
        if weight \<ge> min_weight \<and> detections = [] then
          Some ''weight_indicates_fruit_but_no_detections''
        else if raw_detections \<noteq> []
                \<and> list_all (\<lambda>d. confidence d < confidence_guard) raw_detections then
          Some ''all_detections_below_confidence_guard''
        else if weight \<ge> min_weight \<and> expected_weight_per_fruit > 0 then
          (let expected_count = py_int (float_div weight expected_weight_per_fruit);
               actual_count = int (length detections)
           in if expected_count \<ge> 2 \<and> actual_count < expected_count - 1
              then Some ''expected_more_fruits_by_weight''
              else None)
        else None)"

subsection \<open>Defect analysis per fruit\<close>

text \<open>
  The inner \<open>analyze_detection\<close>: the crop is computed before the \<open>try\<close>, so its
  exception leaves the coroutine; an exception of the defect detector is caught and
  gives no defects.
\<close>

definition analyze_detection ::
  "world \<Rightarrow> string \<Rightarrow> bytes \<Rightarrow> fruit_detection \<Rightarrow> exn + fruit_summary" where
  "analyze_detection w img_id image_bytes detection =
     (case crop w image_bytes (as_tuple (bbox detection)) of
        Inl exc \<Rightarrow> Inl exc
      | Inr crop_bytes \<Rightarrow>
          (let found =
                 (case detect_defects w img_id (fruit_id detection) crop_bytes
                         (fruit_id detection @ ''.jpg'') of
                    Inl exc \<Rightarrow> []
                  | Inr defect_result \<Rightarrow> detected_defects defect_result)
           in Inr \<lparr> summary_fruit_id = fruit_id detection,
                    summary_fruit_class = fruit_class detection,
                    summary_confidence = confidence detection,
                    summary_bbox = bbox detection,
                    defects = found \<rparr>))"

text \<open>
  The loop over \<open>finished\<close>: \<open>gather\<close> with \<open>return_exceptions=True\<close> gives one item per
  task, in the order of the tasks; an exception is skipped, a summary is appended.
\<close>

fun collect_summaries ::
  "fruit_summary list \<Rightarrow> (exn + fruit_summary) list \<Rightarrow> fruit_summary list" where
  "collect_summaries fruit_summaries [] = fruit_summaries"
| "collect_summaries fruit_summaries (Inl exc # finished) =
     collect_summaries fruit_summaries finished"
| "collect_summaries fruit_summaries (Inr item # finished) =
     collect_summaries (fruit_summaries @ [item]) finished"

definition analyze_fruits ::
  "world \<Rightarrow> bytes \<Rightarrow> fruit_detection list \<Rightarrow> string \<Rightarrow> fruit_summary list" where
  "analyze_fruits w image_bytes detections img_id =
     (if detections = [] then []
      else collect_summaries [] (map (analyze_detection w img_id image_bytes) detections))"

subsection \<open>\<open>execute_scan\<close>\<close>

text \<open>
  \<open>asyncio.gather\<close> without \<open>return_exceptions\<close>: every awaitable it is given is wrapped
  in a task and started, none is cancelled when another fails, and the awaiting coroutine
  gets the results, or the exception of the first task that fails. The list given to
  \<open>gather\<close> here is in the order in which the tasks complete.
\<close>

fun gather :: "(exn + 'a) list \<Rightarrow> exn + 'a list" where
  "gather [] = Inr []"
| "gather (Inl exc # rest) = Inl exc"
| "gather (Inr x # rest) = (case gather rest of Inl exc \<Rightarrow> Inl exc | Inr xs \<Rightarrow> Inr (x # xs))"

definition completion_order :: "world \<Rightarrow> 'a list \<Rightarrow> 'a list" where
  "completion_order w tasks = (if main_publish_completes_first w then rev tasks else tasks)"

text \<open>
  \<open>publish_tasks\<close> in the order of the list, each with the event of its call: the UI
  always, the main server when it is enabled.
\<close>

definition publish_tasks :: "settings \<Rightarrow> world \<Rightarrow> scan_result \<Rightarrow> (event \<times> (exn + unit)) list" where
  "publish_tasks cfg w result =
     (UiPublish result, ui_publish w result)
     # (if enable_main_server_publish cfg
        then [(MainServerPublish result, main_server_publish w result)]
        else [])"

text \<open>
  Lines 145 to 166: the detections that go on to the defect analysis, the primary filtered
  set when there is no fallback reason, the filtered fallback set when there is one.
\<close>

definition final_detections ::
  "settings \<Rightarrow> world \<Rightarrow> string \<Rightarrow> bytes \<Rightarrow> int \<Rightarrow> fruit_detection list \<Rightarrow> string option
     \<Rightarrow> exn + fruit_detection list" where
  "final_detections cfg w img_id image_bytes image_area filtered_detections fallback_reason =
     (case fallback_reason of
        None \<Rightarrow> Inr filtered_detections
      | Some reason \<Rightarrow>
          (case detect_fruits w img_id image_bytes (fruit_detector_fallback_imgsz cfg) of
             Inl exc \<Rightarrow> Inl exc
           | Inr fallback_response \<Rightarrow>
               Inr (filter_detections_by_class_threshold cfg
                      (filter_detections_by_bbox_area cfg
                         (detected_fruits fallback_response) image_area))))"

text \<open>
  Lines 107 to 122, the first part of the \<open>try\<close>: the capture, the download of the
  image, the cropper with the image area, and the primary detection.
\<close>

definition capture_and_detect ::
  "settings \<Rightarrow> world \<Rightarrow> exn + (camera_capture_response \<times> bytes \<times> int \<times> fruit_detection list)" where
  "capture_and_detect cfg w =
     (let primary_imgsz = fruit_detector_primary_imgsz cfg in
      case capture_image w (primary_imgsz, primary_imgsz) of
        Inl exc \<Rightarrow> Inl exc
      | Inr capture \<Rightarrow>
      (case resolved_path capture of
        Inl exc \<Rightarrow> Inl exc
      | Inr path \<Rightarrow>
      (case fetch_image_binary w path of
        Inl exc \<Rightarrow> Inl exc
      | Inr image_bytes \<Rightarrow>
      (case image_size w image_bytes of
        Inl exc \<Rightarrow> Inl exc
      | Inr (image_width, image_height) \<Rightarrow>
      (case detect_fruits w (capture_image_id capture) image_bytes primary_imgsz of
        Inl exc \<Rightarrow> Inl exc
      | Inr detections_response \<Rightarrow>
          Inr (capture, image_bytes, image_width * image_height,
               detected_fruits detections_response))))))"

text \<open>
  The body of the \<open>try\<close>: the events, and the number of fruits or the exception that
  leaves it.
\<close>

definition scan_body ::
  "settings \<Rightarrow> world \<Rightarrow> weight_reading \<Rightarrow> string \<Rightarrow> event list \<times> (exn + nat)" where
  "scan_body cfg w rd sid =
     (case capture_and_detect cfg w of
        Inl exc \<Rightarrow> ([], Inl exc)
      | Inr (capture, image_bytes, image_area, raw_detections) \<Rightarrow>
      (let detections_after_bbox_filter =
             filter_detections_by_bbox_area cfg raw_detections image_area;
           filtered_detections =
             filter_detections_by_class_threshold cfg detections_after_bbox_filter;
           fallback_reason =
             should_fallback cfg filtered_detections raw_detections (grams rd)
       in
       case final_detections cfg w (capture_image_id capture) image_bytes image_area
              filtered_detections fallback_reason of
        Inl exc \<Rightarrow> ([], Inl exc)
      | Inr detections \<Rightarrow>
      (let found = analyze_fruits w image_bytes detections (capture_image_id capture);
           result = \<lparr> session_id = sid,
                      image_id = capture_image_id capture,
                      result_timestamp = now_utc w,
                      weight_grams = grams rd,
                      fruits = found \<rparr>;
           tasks = publish_tasks cfg w result
       in (map fst tasks,
           case gather (map snd (completion_order w tasks)) of
             Inl exc \<Rightarrow> Inl exc
           | Inr done \<Rightarrow> Inr (length found)))))"

text \<open>
  \<open>execute_scan\<close>: the \<open>try\<close> with its \<open>except Exception\<close>, which logs and returns. The
  second component is how the coroutine ends: \<open>Inr ()\<close> is a normal return.
\<close>

definition execute_scan :: "settings \<Rightarrow> world \<Rightarrow> weight_reading \<Rightarrow> event list \<times> (exn + unit)" where
  "execute_scan cfg w rd =
     (let sid = uuid4 w in
      case scan_body cfg w rd sid of
        (evs, Inr n) \<Rightarrow> (ScanStarted sid (grams rd) # evs @ [ScanFinished sid n], Inr ())
      | (evs, Inl exc) \<Rightarrow> (ScanStarted sid (grams rd) # evs @ [ScanFailed sid exc], Inr ()))"

section \<open>The route (app/api/routes.py)\<close>

text \<open>
  \<open>trigger_scan\<close> for a validated \<open>ManualScanRequest\<close>: the reading is built, the scan
  is awaited, and then the handler returns its body.
\<close>

definition trigger_scan ::
  "settings \<Rightarrow> world \<Rightarrow> real \<Rightarrow> event list \<times> (exn + (string \<times> string) list)" where
  "trigger_scan cfg w payload_weight_grams =
     (let rd = \<lparr> grams = payload_weight_grams, timestamp = utcnow w \<rparr> in
      case execute_scan cfg w rd of
        (evs, Inl exc) \<Rightarrow> (evs, Inl exc)
      | (evs, Inr u) \<Rightarrow>
          (evs @ [Responded [(''status'', ''accepted'')]], Inr [(''status'', ''accepted'')]))"

section \<open>What a run published, and where a scan failed\<close>

text \<open>The results handed to \<open>ui_client.publish\<close> and to \<open>main_server_client.publish\<close>.\<close>

fun ui_published :: "event list \<Rightarrow> scan_result list" where
  "ui_published [] = []"
| "ui_published (UiPublish r # evs) = r # ui_published evs"
| "ui_published (e # evs) = ui_published evs"

fun main_published :: "event list \<Rightarrow> scan_result list" where
  "main_published [] = []"
| "main_published (MainServerPublish r # evs) = r # main_published evs"
| "main_published (e # evs) = main_published evs"

text \<open>The \<open>ScanResult\<close> assembled at lines 184 to 190.\<close>

definition result_of ::
  "world \<Rightarrow> weight_reading \<Rightarrow> camera_capture_response \<Rightarrow> fruit_summary list \<Rightarrow> scan_result" where
  "result_of w rd capture found =
     \<lparr> session_id = uuid4 w,
       image_id = capture_image_id capture,
       result_timestamp = now_utc w,
       weight_grams = grams rd,
       fruits = found \<rparr>"

text \<open>
  The three calls of lines 110, 111 and 119, each reached only when the calls before it
  returned: the call raises.
\<close>

definition capture_raises :: "settings \<Rightarrow> world \<Rightarrow> bool" where
  "capture_raises cfg w =
     isl (capture_image w (fruit_detector_primary_imgsz cfg, fruit_detector_primary_imgsz cfg))"

definition fetch_raises :: "settings \<Rightarrow> world \<Rightarrow> bool" where
  "fetch_raises cfg w =
     (case capture_image w (fruit_detector_primary_imgsz cfg, fruit_detector_primary_imgsz cfg) of
        Inl exc \<Rightarrow> False
      | Inr capture \<Rightarrow>
          (case resolved_path capture of
             Inl exc \<Rightarrow> False
           | Inr path \<Rightarrow> isl (fetch_image_binary w path)))"

definition primary_detect_raises :: "settings \<Rightarrow> world \<Rightarrow> bool" where
  "primary_detect_raises cfg w =
     (case capture_image w (fruit_detector_primary_imgsz cfg, fruit_detector_primary_imgsz cfg) of
        Inl exc \<Rightarrow> False
      | Inr capture \<Rightarrow>
          (case resolved_path capture of
             Inl exc \<Rightarrow> False
           | Inr path \<Rightarrow>
               (case fetch_image_binary w path of
                  Inl exc \<Rightarrow> False
                | Inr image_bytes \<Rightarrow>
                    (case image_size w image_bytes of
                       Inl exc \<Rightarrow> False
                     | Inr dims \<Rightarrow>
                         isl (detect_fruits w (capture_image_id capture) image_bytes
                                (fruit_detector_primary_imgsz cfg))))))"

text \<open>The crop of a detection returns; the defects of a fruit, none when a call raised.\<close>

definition crop_succeeds :: "world \<Rightarrow> bytes \<Rightarrow> fruit_detection \<Rightarrow> bool" where
  "crop_succeeds w image_bytes detection =
     (\<not> isl (crop w image_bytes (as_tuple (bbox detection))))"

definition defects_or_none :: "world \<Rightarrow> string \<Rightarrow> bytes \<Rightarrow> fruit_detection \<Rightarrow> defect_info list" where
  "defects_or_none w img_id image_bytes detection =
     (case crop w image_bytes (as_tuple (bbox detection)) of
        Inl exc \<Rightarrow> []
      | Inr crop_bytes \<Rightarrow>
          (case detect_defects w img_id (fruit_id detection) crop_bytes
                  (fruit_id detection @ ''.jpg'') of
             Inl exc \<Rightarrow> []
           | Inr defect_result \<Rightarrow> detected_defects defect_result))"

definition summary_of :: "world \<Rightarrow> string \<Rightarrow> bytes \<Rightarrow> fruit_detection \<Rightarrow> fruit_summary" where
  "summary_of w img_id image_bytes detection =
     \<lparr> summary_fruit_id = fruit_id detection,
       summary_fruit_class = fruit_class detection,
       summary_confidence = confidence detection,
       summary_bbox = bbox detection,
       defects = defects_or_none w img_id image_bytes detection \<rparr>"



text \<open>
  The exception that leaves the \<open>gather\<close> of the publish step: none when every publish
  returns, the exception of the one that raises, the earlier of the two when both raise.
\<close>

definition publish_failure :: "settings \<Rightarrow> world \<Rightarrow> scan_result \<Rightarrow> exn option" where
  "publish_failure cfg w result =
     (if enable_main_server_publish cfg then
        (case (ui_publish w result, main_server_publish w result) of
           (Inr u, Inr v) \<Rightarrow> None
         | (Inl ui_exc, Inr v) \<Rightarrow> Some ui_exc
         | (Inr u, Inl main_exc) \<Rightarrow> Some main_exc
         | (Inl ui_exc, Inl main_exc) \<Rightarrow>
             Some (if main_publish_completes_first w then main_exc else ui_exc))
      else
        (case ui_publish w result of Inr u \<Rightarrow> None | Inl ui_exc \<Rightarrow> Some ui_exc))"

text \<open>The last scan time of a machine in front of the scan times that follow it.\<close>

definition since_last :: "machine \<Rightarrow> datetime list \<Rightarrow> datetime list" where
  "since_last m ts = (case last_scan_at m of None \<Rightarrow> ts | Some t \<Rightarrow> t # ts)"

section \<open>Concrete scenarios\<close>

text \<open>Scenario 1 of the specification, and the readings that follow it in the other scenarios.\<close>

definition cold_start_readings :: "weight_reading list" where
  "cold_start_readings = [reading 0 0, reading 35 200, reading 35 300]"

definition retrigger_readings :: "weight_reading list" where
  "retrigger_readings = cold_start_readings @ [reading 35 450, reading 60 3100]"

definition quick_return_readings :: "weight_reading list" where
  "quick_return_readings =
     cold_start_readings @ [reading 35 450, reading 0 900, reading 0 1000, reading 50 1500]"

definition idle_decision :: scan_decision where
  "idle_decision = \<lparr> decision_state = IDLE, scan_requested = False, transition = NONE \<rparr>"

text \<open>The stubs of the orchestrator test: one apple on a 128 by 128 image, one bruise.\<close>

definition apple_detection :: fruit_detection where
  "apple_detection = \<lparr> fruit_id = ''fruit-1'', fruit_class = ''apple'', confidence = 95 / 100,
       bbox = \<lparr> x_min = 0, y_min = 0, x_max = 60, y_max = 60 \<rparr> \<rparr>"

definition banana_detection :: fruit_detection where
  "banana_detection = \<lparr> fruit_id = ''fruit-2'', fruit_class = ''banana'', confidence = 80 / 100,
       bbox = \<lparr> x_min = 60, y_min = 60, x_max = 120, y_max = 100 \<rparr> \<rparr>"

definition faint_detection :: fruit_detection where
  "faint_detection = \<lparr> fruit_id = ''fruit-0'', fruit_class = ''apple'', confidence = 10 / 100,
       bbox = \<lparr> x_min = 0, y_min = 0, x_max = 60, y_max = 60 \<rparr> \<rparr>"

definition bruise :: defect_info where
  "bruise = \<lparr> defect_type = ''bruise'', defect_confidence = 90 / 100, segmentation = None \<rparr>"

definition station_capture :: camera_capture_response where
  "station_capture = \<lparr> capture_image_id = ''img-1'', image_url = Some ''/image/img-1.jpg'',
       image_path = None, capture_timestamp = 0 \<rparr>"

definition station :: world where
  "station = \<lparr>
     uuid4 = ''session-1'',
     utcnow = 0,
     now_utc = 1,
     capture_image = (\<lambda>resolution. Inr station_capture),
     fetch_image_binary = (\<lambda>path. Inr [255, 216, 255]),
     image_size = (\<lambda>image_bytes. Inr (128, 128)),
     crop = (\<lambda>image_bytes box. Inr [255, 216]),
     detect_fruits = (\<lambda>img_id image_bytes imgsz.
        Inr \<lparr> detections_image_id = img_id, detected_fruits = [apple_detection] \<rparr>),
     detect_defects = (\<lambda>img_id fid crop_bytes filename.
        Inr \<lparr> defect_image_id = img_id, defect_fruit_id = fid, detected_defects = [bruise] \<rparr>),
     ui_publish = (\<lambda>result. Inr ()),
     main_server_publish = (\<lambda>result. Inr ()),
     main_publish_completes_first = False \<rparr>"

definition manual_reading :: weight_reading where
  "manual_reading = \<lparr> grams = 120, timestamp = 0 \<rparr>"

definition apple_summary :: fruit_summary where
  "apple_summary = \<lparr> summary_fruit_id = ''fruit-1'', summary_fruit_class = ''apple'',
       summary_confidence = 95 / 100,
       summary_bbox = \<lparr> x_min = 0, y_min = 0, x_max = 60, y_max = 60 \<rparr>,
       defects = [bruise] \<rparr>"

definition banana_summary :: "defect_info list \<Rightarrow> fruit_summary" where
  "banana_summary ds = \<lparr> summary_fruit_id = ''fruit-2'', summary_fruit_class = ''banana'',
       summary_confidence = 80 / 100,
       summary_bbox = \<lparr> x_min = 60, y_min = 60, x_max = 120, y_max = 100 \<rparr>,
       defects = ds \<rparr>"

definition station_result :: "fruit_summary list \<Rightarrow> scan_result" where
  "station_result found = \<lparr> session_id = ''session-1'', image_id = ''img-1'',
       result_timestamp = 1, weight_grams = 120, fruits = found \<rparr>"

text \<open>Scenario 5: a faint primary detection, an apple at the fallback size.\<close>

definition fallback_station :: world where
  "fallback_station = station\<lparr> detect_fruits := (\<lambda>img_id image_bytes imgsz.
      if imgsz = 416
      then Inr \<lparr> detections_image_id = img_id, detected_fruits = [apple_detection] \<rparr>
      else Inr \<lparr> detections_image_id = img_id, detected_fruits = [faint_detection] \<rparr>) \<rparr>"

text \<open>Scenario 6: two detections, the defect detector raises for fruit-2.\<close>

definition two_fruit_station :: world where
  "two_fruit_station = station\<lparr>
      detect_fruits := (\<lambda>img_id image_bytes imgsz.
        Inr \<lparr> detections_image_id = img_id,
              detected_fruits = [apple_detection, banana_detection] \<rparr>),
      detect_defects := (\<lambda>img_id fid crop_bytes filename.
        if fid = ''fruit-2'' then Inl (ServiceError ''defect-detector'')
        else Inr \<lparr> defect_image_id = img_id, defect_fruit_id = fid,
                   detected_defects = [bruise] \<rparr>) \<rparr>"

text \<open>Stations where one collaborator raises.\<close>

definition crop_fails_station :: world where
  "crop_fails_station = station\<lparr> crop := (\<lambda>image_bytes box. Inl (OSError ''crop'')) \<rparr>"

definition capture_fails_station :: world where
  "capture_fails_station =
     station\<lparr> capture_image := (\<lambda>resolution. Inl (ServiceError ''camera'')) \<rparr>"

definition fetch_fails_station :: world where
  "fetch_fails_station =
     station\<lparr> fetch_image_binary := (\<lambda>path. Inl (ServiceError ''camera'')) \<rparr>"

definition detect_fails_station :: world where
  "detect_fails_station =
     station\<lparr> detect_fruits :=
       (\<lambda>img_id image_bytes imgsz. Inl (ServiceError ''fruit-detector'')) \<rparr>"




text \<open>The main server publish enabled, and stations whose publishers raise.\<close>

definition publishing_settings :: settings where
  "publishing_settings = default_settings\<lparr> enable_main_server_publish := True \<rparr>"

definition ui_fails_station :: world where
  "ui_fails_station = station\<lparr> ui_publish := (\<lambda>result. Inl (ServiceError ''ui'')) \<rparr>"

definition both_fail_station :: world where
  "both_fail_station = station\<lparr>
      ui_publish := (\<lambda>result. Inl (ServiceError ''ui'')),
      main_server_publish := (\<lambda>result. Inl (ServiceError ''main-server'')) \<rparr>"

section \<open>Lemmas\<close>

lemmas machine_defs = process_def prune_history_def stable_weight_def mark_scan_if_allowed_def
  scan_interval_respected_def significant_delta_reached_def timedelta_ms_def total_seconds_def
  at_ms_def reading_def fmean_def default_settings_def init_machine_def decisions_def
  cold_start_readings_def retrigger_readings_def quick_return_readings_def idle_decision_def

subsection \<open>The state machine\<close>

lemma elapsed_ms_iff:
  "(total_seconds d * 1000 \<ge> real_of_int k) = (d \<ge> timedelta_ms k)"
proof -
  have "(real_of_int k \<le> total_seconds d * 1000) = (real_of_int k \<le> real_of_int d / 1000)"
    by (simp add: total_seconds_def)
  also have "\<dots> = (real_of_int k * 1000 \<le> real_of_int d)"
    by (simp add: pos_le_divide_eq)
  also have "\<dots> = (real_of_int (k * 1000) \<le> real_of_int d)"
    by simp
  also have "\<dots> = (k * 1000 \<le> d)"
    by (rule of_int_le_iff)
  finally show ?thesis by (simp add: timedelta_ms_def)
qed

lemma scan_interval_respected_iff:
  "scan_interval_respected cfg m now =
     (case last_scan_at m of None \<Rightarrow> True
      | Some t \<Rightarrow> now - t \<ge> timedelta_ms (min_scan_interval_ms cfg))"
  by (simp add: scan_interval_respected_def elapsed_ms_iff split: option.splits)

lemma process_scan_requested:
  "process cfg m r = (d, m') \<Longrightarrow> scan_requested d \<Longrightarrow>
     scan_interval_respected cfg m (timestamp r) \<and> last_scan_at m' = Some (timestamp r)"
  by (auto simp: process_def Let_def mark_scan_if_allowed_def scan_interval_respected_def
      split: option.splits if_splits prod.splits)

lemma process_no_scan:
  "process cfg m r = (d, m') \<Longrightarrow> \<not> scan_requested d \<Longrightarrow> last_scan_at m' = last_scan_at m"
  by (auto simp: process_def Let_def mark_scan_if_allowed_def
      split: option.splits if_splits prod.splits)

lemma scan_times_Nil: "scan_times cfg m [] = []"
  by (simp add: scan_times_def decisions_def)

lemma scan_times_Cons:
  "process cfg m r = (d, m') \<Longrightarrow>
   scan_times cfg m (r # rs) =
     (if scan_requested d then timestamp r # scan_times cfg m' rs else scan_times cfg m' rs)"
  by (simp add: scan_times_def decisions_def split: prod.splits)

text \<open>
  The invariant behind the minimum interval: \<open>last_scan_at\<close> is the time of the last scan
  requested, so the scan times that follow it keep their distance from it too.
\<close>

lemma scan_times_spaced:
  "successively (\<lambda>t1 t2. t2 - t1 \<ge> timedelta_ms (min_scan_interval_ms cfg))
     (since_last m (scan_times cfg m rs))"
proof (induction rs arbitrary: m)
  case Nil
  show ?case by (simp add: scan_times_Nil since_last_def split: option.splits)
next
  case (Cons r rs)
  obtain d m' where step: "process cfg m r = (d, m')" by (cases "process cfg m r")
  show ?case
  proof (cases "scan_requested d")
    case True
    from process_scan_requested[OF step True]
    have ok: "scan_interval_respected cfg m (timestamp r)"
      and at: "last_scan_at m' = Some (timestamp r)" by simp_all
    from Cons.IH[of m'] at
    have tl: "successively (\<lambda>t1 t2. t2 - t1 \<ge> timedelta_ms (min_scan_interval_ms cfg))
        (timestamp r # scan_times cfg m' rs)" by (simp add: since_last_def)
    from ok tl show ?thesis
      by (simp add: scan_times_Cons[OF step] True since_last_def scan_interval_respected_iff
          split: option.splits)
  next
    case False
    from process_no_scan[OF step False] Cons.IH[of m'] show ?thesis
      by (simp add: scan_times_Cons[OF step] False since_last_def)
  qed
qed

lemma successively_since_last:
  "successively P (since_last m ts) \<Longrightarrow> successively P ts"
  by (cases ts) (auto simp: since_last_def split: option.splits)


lemma retrigger_machine:
  "snd (run default_settings init_machine retrigger_readings) =
     \<lparr> state = ACTIVE, history = [reading 60 3100], last_scan_at = Some (at_ms 450),
       last_scan_weight = 35 \<rparr>"
  by (simp add: machine_defs Let_def)



subsection \<open>The filters and the fallback decision\<close>

lemma class_threshold_loop_eq:
  "class_threshold_loop cfg acc ds =
     acc @ filter (\<lambda>d. confidence d \<ge> class_threshold cfg d) ds"
  by (induction ds arbitrary: acc) simp_all

lemma bbox_area_loop_eq:
  "bbox_area_loop min_area acc ds = acc @ filter (\<lambda>d. bbox_area d \<ge> min_area) ds"
  by (induction ds arbitrary: acc) simp_all

lemma filter_by_class_threshold_eq:
  "filter_detections_by_class_threshold cfg ds =
     filter (\<lambda>d. confidence d \<ge> class_threshold cfg d) ds"
  by (simp add: filter_detections_by_class_threshold_def class_threshold_loop_eq)

lemma filter_by_bbox_area_eq:
  "filter_detections_by_bbox_area cfg ds image_area =
     filter (\<lambda>d. bbox_area d \<ge> real_of_int image_area * fruit_detector_min_bbox_area_ratio cfg) ds"
  by (simp add: filter_detections_by_bbox_area_def bbox_area_loop_eq)


subsection \<open>The pipeline\<close>

lemma ui_published_append: "ui_published (xs @ ys) = ui_published xs @ ui_published ys"
  by (induction xs rule: ui_published.induct) simp_all

lemma main_published_append: "main_published (xs @ ys) = main_published xs @ main_published ys"
  by (induction xs rule: main_published.induct) simp_all

lemma ui_published_tasks: "ui_published (map fst (publish_tasks cfg w r)) = [r]"
  by (simp add: publish_tasks_def)

lemma main_published_tasks:
  "main_published (map fst (publish_tasks cfg w r)) =
     (if enable_main_server_publish cfg then [r] else [])"
  by (simp add: publish_tasks_def)

lemma execute_scan_returns: "snd (execute_scan cfg w rd) = Inr ()"
  by (simp add: execute_scan_def Let_def split: prod.splits sum.splits)

lemma scan_body_failed_early:
  "capture_and_detect cfg w = Inl exc \<Longrightarrow> scan_body cfg w rd sid = ([], Inl exc)"
  by (simp add: scan_body_def)

lemma scan_body_events:
  assumes "capture_and_detect cfg w = Inr (capture, image_bytes, image_area, raw)"
  shows "fst (scan_body cfg w rd sid) =
     (case final_detections cfg w (capture_image_id capture) image_bytes image_area
             (filter_detections_by_class_threshold cfg
                (filter_detections_by_bbox_area cfg raw image_area))
             (should_fallback cfg
                (filter_detections_by_class_threshold cfg
                   (filter_detections_by_bbox_area cfg raw image_area)) raw (grams rd)) of
        Inl exc \<Rightarrow> []
      | Inr detections \<Rightarrow>
          map fst (publish_tasks cfg w
            \<lparr> session_id = sid, image_id = capture_image_id capture,
              result_timestamp = now_utc w, weight_grams = grams rd,
              fruits = analyze_fruits w image_bytes detections (capture_image_id capture) \<rparr>))"
  using assms by (simp add: scan_body_def Let_def split: sum.splits)

lemma execute_scan_events:
  "ui_published (fst (execute_scan cfg w rd)) = ui_published (fst (scan_body cfg w rd (uuid4 w)))"
  "main_published (fst (execute_scan cfg w rd)) = main_published (fst (scan_body cfg w rd (uuid4 w)))"
  by (simp_all add: execute_scan_def Let_def ui_published_append main_published_append
      split: prod.splits sum.splits)

lemma collect_summaries_eq:
  "collect_summaries acc (map (analyze_detection w img_id image_bytes) ds) =
     acc @ map (summary_of w img_id image_bytes) (filter (crop_succeeds w image_bytes) ds)"
  by (induction ds arbitrary: acc)
     (auto simp: analyze_detection_def summary_of_def defects_or_none_def crop_succeeds_def Let_def
           split: sum.splits)

lemma analyze_fruits_eq:
  "analyze_fruits w image_bytes ds img_id =
     map (summary_of w img_id image_bytes) (filter (crop_succeeds w image_bytes) ds)"
  by (simp add: analyze_fruits_def collect_summaries_eq)

lemma early_failure:
  "capture_raises cfg w \<or> fetch_raises cfg w \<or> primary_detect_raises cfg w
     \<Longrightarrow> isl (capture_and_detect cfg w)"
  by (auto simp: capture_raises_def fetch_raises_def primary_detect_raises_def
        capture_and_detect_def Let_def isl_def split: sum.splits prod.splits)

lemma gather_publish_tasks:
  "gather (map snd (completion_order w (publish_tasks cfg w result))) =
     (case publish_failure cfg w result of
        Some exc \<Rightarrow> Inl exc
      | None \<Rightarrow> Inr (map (\<lambda>t. ()) (publish_tasks cfg w result)))"
  by (auto simp: publish_tasks_def completion_order_def publish_failure_def split: sum.splits)

lemma scan_body_outcome:
  assumes "capture_and_detect cfg w = Inr (capture, image_bytes, image_area, raw)"
    and "final_detections cfg w (capture_image_id capture) image_bytes image_area
           (filter_detections_by_class_threshold cfg
              (filter_detections_by_bbox_area cfg raw image_area))
           (should_fallback cfg
              (filter_detections_by_class_threshold cfg
                 (filter_detections_by_bbox_area cfg raw image_area)) raw (grams rd))
         = Inr detections"
  shows "scan_body cfg w rd sid =
     (map fst (publish_tasks cfg w
        \<lparr> session_id = sid, image_id = capture_image_id capture,
          result_timestamp = now_utc w, weight_grams = grams rd,
          fruits = analyze_fruits w image_bytes detections (capture_image_id capture) \<rparr>),
      case publish_failure cfg w
        \<lparr> session_id = sid, image_id = capture_image_id capture,
          result_timestamp = now_utc w, weight_grams = grams rd,
          fruits = analyze_fruits w image_bytes detections (capture_image_id capture) \<rparr> of
        Some exc \<Rightarrow> Inl exc
      | None \<Rightarrow> Inr (length (analyze_fruits w image_bytes detections (capture_image_id capture))))"
  using assms
  by (simp add: scan_body_def Let_def gather_publish_tasks split: option.splits)

lemmas float_defs = float_div_def round_to_double_def round_positive_def scale_down.simps
  scale_up.simps round_half_even_def pow2_def

lemmas pipeline_defs = publishing_settings_def ui_fails_station_def both_fail_station_def
  float_defs execute_scan_def scan_body_def capture_and_detect_def final_detections_def
  publish_tasks_def completion_order_def analyze_fruits_eq summary_of_def defects_or_none_def crop_succeeds_def
  should_fallback_def
  filter_by_bbox_area_eq filter_by_class_threshold_eq class_threshold_def bbox_area_def
  resolved_path_def as_tuple_def py_int_def default_settings_def station_def
  station_capture_def apple_detection_def faint_detection_def banana_detection_def bruise_def
  trigger_scan_def manual_reading_def apple_summary_def banana_summary_def station_result_def

section \<open>Claims about the weight state machine\<close>

text \<open>
  Claim C2. Whatever readings one machine is fed, from whatever state, the times of two
  consecutive decisions that request a scan are at least \<open>min_scan_interval_ms\<close> apart;
  and a step requests a scan only when \<open>last_scan_at\<close> is null or at least
  \<open>min_scan_interval_ms\<close> older than the timestamp of the reading. Non-decreasing
  timestamps are not needed for either part.
\<close>

theorem scans_keep_minimum_distance:
  "successively (\<lambda>t1 t2. t2 - t1 \<ge> timedelta_ms (min_scan_interval_ms cfg)) (scan_times cfg m rs)
   \<and> (scan_requested (fst (process cfg m r)) \<longrightarrow>
        (case last_scan_at m of
           None \<Rightarrow> True
         | Some t \<Rightarrow> timestamp r - t \<ge> timedelta_ms (min_scan_interval_ms cfg)))"
proof
  show "successively (\<lambda>t1 t2. t2 - t1 \<ge> timedelta_ms (min_scan_interval_ms cfg))
          (scan_times cfg m rs)"
    by (rule successively_since_last) (rule scan_times_spaced)
next
  show "scan_requested (fst (process cfg m r)) \<longrightarrow>
        (case last_scan_at m of
           None \<Rightarrow> True
         | Some t \<Rightarrow> timestamp r - t \<ge> timedelta_ms (min_scan_interval_ms cfg))"
  proof
    assume req: "scan_requested (fst (process cfg m r))"
    obtain d m' where step: "process cfg m r = (d, m')" by (cases "process cfg m r")
    with req have "scan_requested d" by simp
    from process_scan_requested[OF step this]
    show "(case last_scan_at m of
             None \<Rightarrow> True
           | Some t \<Rightarrow> timestamp r - t \<ge> timedelta_ms (min_scan_interval_ms cfg))"
      by (simp add: scan_interval_respected_iff)
  qed
qed

text \<open>
  Witness for C2: after scenario 1 and a reading of 60 g at 3100 ms, the reading of 62 g at
  3300 ms requests the second scan, 2850 ms after the first one at 450 ms.
\<close>

theorem scans_keep_minimum_distance_witness:
  "scan_requested (fst (process default_settings
       (snd (run default_settings init_machine retrigger_readings)) (reading 62 3300)))
   \<and> last_scan_at (snd (run default_settings init_machine retrigger_readings)) = Some (at_ms 450)
   \<and> at_ms 3300 - at_ms 450 \<ge> timedelta_ms (min_scan_interval_ms default_settings)
   \<and> scan_times default_settings init_machine (retrigger_readings @ [reading 62 3300])
       = [at_ms 450, at_ms 3300]"
proof -
  have req: "scan_requested (fst (process default_settings
       (snd (run default_settings init_machine retrigger_readings)) (reading 62 3300)))"
    unfolding retrigger_machine by (simp add: machine_defs Let_def)
  have times: "scan_times default_settings init_machine (retrigger_readings @ [reading 62 3300])
       = [at_ms 450, at_ms 3300]"
    by (simp add: scan_times_def machine_defs Let_def)
  from scans_keep_minimum_distance[of default_settings
      "snd (run default_settings init_machine retrigger_readings)"
      "[]" "reading 62 3300"] req times
  show ?thesis by (simp add: retrigger_machine reading_def)
qed

text \<open>
  Counterexample to C8. With the default configuration the three readings of scenario 1
  give three decisions IDLE, no scan, NONE: at 300 ms the reading of 0 g taken at 0 ms is
  still inside the window of 400 ms, so the weights span 35 g and are not stable.
\<close>

theorem cold_start_never_stable:
  "decisions default_settings init_machine cold_start_readings =
     [idle_decision, idle_decision, idle_decision]"
  by (simp add: machine_defs Let_def)

text \<open>
  Claim C8, amended. With the default configuration the readings (0 g, 0 ms), (35 g, 200 ms),
  (35 g, 300 ms) give three decisions IDLE, no scan, NONE; a fourth reading (35 g, 450 ms),
  which evicts the reading of 0 g, gives ACTIVE, scan requested, IDLE to ACTIVE.
\<close>

theorem cold_start_scan_after_eviction:
  "decisions default_settings init_machine (cold_start_readings @ [reading 35 450]) =
     [idle_decision, idle_decision, idle_decision,
      \<lparr> decision_state = ACTIVE, scan_requested = True, transition = IDLE_to_ACTIVE \<rparr>]"
  by (simp add: machine_defs Let_def)




section \<open>Claims about the scan pipeline\<close>

text \<open>
  Claim C10. Each of the two detection filters returns a subsequence of its input: the
  detections it keeps are elements of the input, unchanged, none twice, in the order of
  the input.
\<close>

theorem filters_give_subsequences:
  "subseq (filter_detections_by_bbox_area cfg ds image_area) ds
   \<and> subseq (filter_detections_by_class_threshold cfg ds) ds"
  by (simp add: filter_by_bbox_area_eq filter_by_class_threshold_eq)




text \<open>
  Claim C3. When the scan reaches the fallback decision and there is a reason, the result
  handed to the UI publisher, and to the main server publisher when it is enabled, carries
  the analysis of the fallback response after both filters, whatever the primary response
  was and also when that set is empty; when the fallback call raises, nothing is published.
\<close>

theorem fallback_replaces_primary:
  assumes "capture_and_detect cfg w = Inr (capture, image_bytes, image_area, raw)"
    and "should_fallback cfg
           (filter_detections_by_class_threshold cfg
              (filter_detections_by_bbox_area cfg raw image_area)) raw (grams rd) = Some reason"
  shows "ui_published (fst (execute_scan cfg w rd)) =
           (case detect_fruits w (capture_image_id capture) image_bytes
                   (fruit_detector_fallback_imgsz cfg) of
              Inl exc \<Rightarrow> []
            | Inr fallback_response \<Rightarrow>
                [result_of w rd capture
                   (analyze_fruits w image_bytes
                      (filter_detections_by_class_threshold cfg
                         (filter_detections_by_bbox_area cfg
                            (detected_fruits fallback_response) image_area))
                      (capture_image_id capture))])
         \<and> main_published (fst (execute_scan cfg w rd)) =
             (if enable_main_server_publish cfg
              then ui_published (fst (execute_scan cfg w rd)) else [])"
  using assms
  by (simp add: execute_scan_events scan_body_events final_detections_def result_of_def
        ui_published_tasks main_published_tasks split: sum.splits)

text \<open>
  Witness for C3, scenario 5: 120 g, the primary response is one detection of confidence 0.10,
  the fallback response one apple of confidence 0.95; the result published holds that apple
  only.
\<close>

theorem fallback_replaces_primary_witness:
  "capture_and_detect default_settings fallback_station =
     Inr (station_capture, [255, 216, 255], 16384, [faint_detection])
   \<and> should_fallback default_settings
        (filter_detections_by_class_threshold default_settings
           (filter_detections_by_bbox_area default_settings [faint_detection] 16384))
        [faint_detection] (grams manual_reading)
      = Some ''weight_indicates_fruit_but_no_detections''
   \<and> ui_published (fst (execute_scan default_settings fallback_station manual_reading)) =
       [station_result [apple_summary]]"
proof -
  have a: "capture_and_detect default_settings fallback_station =
     Inr (station_capture, [255, 216, 255], 16384, [faint_detection])"
    by (simp add: fallback_station_def pipeline_defs Let_def)
  have b: "should_fallback default_settings
        (filter_detections_by_class_threshold default_settings
           (filter_detections_by_bbox_area default_settings [faint_detection] 16384))
        [faint_detection] (grams manual_reading)
      = Some ''weight_indicates_fruit_but_no_detections''"
    by (simp add: pipeline_defs Let_def)
  from fallback_replaces_primary[OF a b] a b show ?thesis
    by (simp add: fallback_station_def result_of_def pipeline_defs Let_def)
qed

text \<open>
  Counterexample to C5. Default configuration, 120 g, one apple passes both filters and
  its crop raises: the scan publishes a result with no fruit summary at all.
\<close>

theorem crop_failure_drops_fruit:
  "filter_detections_by_class_threshold default_settings
     (filter_detections_by_bbox_area default_settings [apple_detection] 16384) = [apple_detection]
   \<and> isl (crop crop_fails_station [255, 216, 255] (as_tuple (bbox apple_detection)))
   \<and> ui_published (fst (execute_scan default_settings crop_fails_station manual_reading)) =
       [station_result []]"
  by (simp add: crop_fails_station_def pipeline_defs Let_def)

text \<open>
  Claim C5, amended. When the scan reaches the defect analysis with the detections it
  selected, it is not aborted by any failure of a per-fruit subtask: it returns normally and
  publishes one result, which holds, in the order of the detections, one summary for each
  detection whose crop was computed, with an empty defects list when the defect detector
  raised for that fruit; a detection whose crop raised has no summary in the result.
\<close>

theorem defect_failures_are_local:
  assumes "capture_and_detect cfg w = Inr (capture, image_bytes, image_area, raw)"
    and "final_detections cfg w (capture_image_id capture) image_bytes image_area
           (filter_detections_by_class_threshold cfg
              (filter_detections_by_bbox_area cfg raw image_area))
           (should_fallback cfg
              (filter_detections_by_class_threshold cfg
                 (filter_detections_by_bbox_area cfg raw image_area)) raw (grams rd))
         = Inr detections"
  shows "ui_published (fst (execute_scan cfg w rd)) =
           [result_of w rd capture
              (map (summary_of w (capture_image_id capture) image_bytes)
                 (filter (crop_succeeds w image_bytes) detections))]
         \<and> snd (execute_scan cfg w rd) = Inr ()"
  using assms
  by (simp add: execute_scan_events scan_body_events result_of_def analyze_fruits_eq
        ui_published_tasks execute_scan_returns)

text \<open>
  Witness for C5, scenario 6: two detections pass the filters and the defect detector raises
  for fruit-2; two summaries are published, the second with no defects.
\<close>

theorem defect_failures_are_local_witness:
  "capture_and_detect default_settings two_fruit_station =
     Inr (station_capture, [255, 216, 255], 16384, [apple_detection, banana_detection])
   \<and> ui_published (fst (execute_scan default_settings two_fruit_station manual_reading)) =
       [station_result [apple_summary, banana_summary []]]
   \<and> snd (execute_scan default_settings two_fruit_station manual_reading) = Inr ()"
proof -
  have a: "capture_and_detect default_settings two_fruit_station =
     Inr (station_capture, [255, 216, 255], 16384, [apple_detection, banana_detection])"
    by (simp add: two_fruit_station_def pipeline_defs Let_def)
  have b: "final_detections default_settings two_fruit_station (capture_image_id station_capture)
           [255, 216, 255] 16384
           (filter_detections_by_class_threshold default_settings
              (filter_detections_by_bbox_area default_settings
                 [apple_detection, banana_detection] 16384))
           (should_fallback default_settings
              (filter_detections_by_class_threshold default_settings
                 (filter_detections_by_bbox_area default_settings
                    [apple_detection, banana_detection] 16384))
              [apple_detection, banana_detection] (grams manual_reading))
         = Inr [apple_detection, banana_detection]"
    by (simp add: two_fruit_station_def pipeline_defs Let_def)
  from defect_failures_are_local[OF a b] a show ?thesis
    by (simp add: two_fruit_station_def result_of_def pipeline_defs Let_def)
qed

text \<open>
  Claim C6. When the camera capture, the download of the image or the primary detection
  raises, \<open>execute_scan\<close> hands no result to the UI publisher nor to the main server
  publisher, and returns normally.
\<close>

theorem fatal_failures_publish_nothing:
  assumes "capture_raises cfg w \<or> fetch_raises cfg w \<or> primary_detect_raises cfg w"
  shows "ui_published (fst (execute_scan cfg w rd)) = []
         \<and> main_published (fst (execute_scan cfg w rd)) = []
         \<and> snd (execute_scan cfg w rd) = Inr ()"
proof -
  from early_failure[OF assms] obtain exc where "capture_and_detect cfg w = Inl exc"
    by (auto simp: isl_def)
  then show ?thesis
    by (simp add: execute_scan_events scan_body_failed_early execute_scan_returns)
qed

text \<open>Witness for C6: one station for each of the three calls that raises.\<close>

theorem fatal_failures_publish_nothing_witness:
  "capture_raises default_settings capture_fails_station
   \<and> fetch_raises default_settings fetch_fails_station
   \<and> primary_detect_raises default_settings detect_fails_station
   \<and> fst (execute_scan default_settings capture_fails_station manual_reading) =
       [ScanStarted ''session-1'' 120, ScanFailed ''session-1'' (ServiceError ''camera'')]
   \<and> ui_published (fst (execute_scan default_settings fetch_fails_station manual_reading)) = []
   \<and> main_published (fst (execute_scan default_settings detect_fails_station manual_reading)) = []
   \<and> snd (execute_scan default_settings capture_fails_station manual_reading) = Inr ()"
proof -
  have a: "capture_raises default_settings capture_fails_station"
    by (simp add: capture_raises_def capture_fails_station_def station_def)
  have b: "fetch_raises default_settings fetch_fails_station"
    by (simp add: fetch_raises_def fetch_fails_station_def pipeline_defs)
  have c: "primary_detect_raises default_settings detect_fails_station"
    by (simp add: primary_detect_raises_def detect_fails_station_def pipeline_defs)
  have d: "fst (execute_scan default_settings capture_fails_station manual_reading) =
       [ScanStarted ''session-1'' 120, ScanFailed ''session-1'' (ServiceError ''camera'')]"
    by (simp add: capture_fails_station_def pipeline_defs Let_def)
  from fatal_failures_publish_nothing[of default_settings capture_fails_station manual_reading]
       fatal_failures_publish_nothing[of default_settings fetch_fails_station manual_reading]
       fatal_failures_publish_nothing[of default_settings detect_fails_station manual_reading]
       a b c d
  show ?thesis by simp
qed

text \<open>
  Counterexample to C7. The main server publish is enabled and both publishers raise: both
  calls are made, and the scan logs one failure, that of the UI when its request completes
  first, that of the main server when that one does. The other failure is in no log line.
\<close>

theorem second_publish_failure_unlogged:
  "isl (ui_publish both_fail_station (station_result [apple_summary]))
   \<and> isl (main_server_publish both_fail_station (station_result [apple_summary]))
   \<and> fst (execute_scan publishing_settings both_fail_station manual_reading) =
       [ScanStarted ''session-1'' 120, UiPublish (station_result [apple_summary]),
        MainServerPublish (station_result [apple_summary]),
        ScanFailed ''session-1'' (ServiceError ''ui'')]
   \<and> fst (execute_scan publishing_settings
            (both_fail_station\<lparr> main_publish_completes_first := True \<rparr>) manual_reading) =
       [ScanStarted ''session-1'' 120, UiPublish (station_result [apple_summary]),
        MainServerPublish (station_result [apple_summary]),
        ScanFailed ''session-1'' (ServiceError ''main-server'')]"
  by (simp add: pipeline_defs Let_def)

text \<open>
  Claim C7, amended. When the scan reaches the publish step, the call to the UI publisher
  and, when \<open>enable_main_server_publish\<close> is set, the call to the main server publisher
  are both made, whatever the outcome of the other; \<open>execute_scan\<close> returns normally
  whatever their outcomes; and its last log line is the end of the scan when every publish
  returned, and otherwise the failure that left the \<open>gather\<close>: the failure of the one
  publish that raised, the earlier of the two when both raised.
\<close>

theorem publish_failures_stay_local:
  assumes "capture_and_detect cfg w = Inr (capture, image_bytes, image_area, raw)"
    and "final_detections cfg w (capture_image_id capture) image_bytes image_area
           (filter_detections_by_class_threshold cfg
              (filter_detections_by_bbox_area cfg raw image_area))
           (should_fallback cfg
              (filter_detections_by_class_threshold cfg
                 (filter_detections_by_bbox_area cfg raw image_area)) raw (grams rd))
         = Inr detections"
    and "result = result_of w rd capture
           (analyze_fruits w image_bytes detections (capture_image_id capture))"
  shows "fst (execute_scan cfg w rd) =
           ScanStarted (uuid4 w) (grams rd) # UiPublish result
           # (if enable_main_server_publish cfg then [MainServerPublish result] else [])
           @ [case publish_failure cfg w result of
                None \<Rightarrow> ScanFinished (uuid4 w) (length (fruits result))
              | Some exc \<Rightarrow> ScanFailed (uuid4 w) exc]
         \<and> snd (execute_scan cfg w rd) = Inr ()"
  using assms(3)
  by (simp add: execute_scan_def Let_def scan_body_outcome[OF assms(1,2)] result_of_def
        publish_tasks_def split: option.splits)

text \<open>
  Witness for C7: the main server publish is enabled and the UI publisher raises; the
  call to the main server is made all the same and the failure of the UI is logged.
\<close>

theorem publish_failures_stay_local_witness:
  "capture_and_detect publishing_settings ui_fails_station =
     Inr (station_capture, [255, 216, 255], 16384, [apple_detection])
   \<and> fst (execute_scan publishing_settings ui_fails_station manual_reading) =
       [ScanStarted ''session-1'' 120, UiPublish (station_result [apple_summary]),
        MainServerPublish (station_result [apple_summary]),
        ScanFailed ''session-1'' (ServiceError ''ui'')]
   \<and> snd (execute_scan publishing_settings ui_fails_station manual_reading) = Inr ()"
proof -
  have a: "capture_and_detect publishing_settings ui_fails_station =
     Inr (station_capture, [255, 216, 255], 16384, [apple_detection])"
    by (simp add: pipeline_defs Let_def)
  have b: "final_detections publishing_settings ui_fails_station (capture_image_id station_capture)
           [255, 216, 255] 16384
           (filter_detections_by_class_threshold publishing_settings
              (filter_detections_by_bbox_area publishing_settings [apple_detection] 16384))
           (should_fallback publishing_settings
              (filter_detections_by_class_threshold publishing_settings
                 (filter_detections_by_bbox_area publishing_settings [apple_detection] 16384))
              [apple_detection] (grams manual_reading))
         = Inr [apple_detection]"
    by (simp add: pipeline_defs Let_def)
  from publish_failures_stay_local[OF a b refl] a show ?thesis
    by (simp add: publish_failure_def result_of_def pipeline_defs Let_def)
qed

section \<open>Claim about the route\<close>

text \<open>
  Claim C1 says that the handler answers before the scan it started completes. The handler
  awaits \<open>execute_scan\<close>: for every body its response is the last event, after every event
  of the scan; for the body with 120 g at the station of the orchestrator test the response
  follows the publication of the result and the end of the scan.
\<close>

theorem trigger_scan_answers_after_scan:
  "fst (trigger_scan cfg w g) =
     fst (execute_scan cfg w \<lparr> grams = g, timestamp = utcnow w \<rparr>)
       @ [Responded [(''status'', ''accepted'')]]
   \<and> fst (trigger_scan default_settings station 120) =
       [ScanStarted ''session-1'' 120, UiPublish (station_result [apple_summary]),
        ScanFinished ''session-1'' 1, Responded [(''status'', ''accepted'')]]"
proof
  have "snd (execute_scan cfg w \<lparr> grams = g, timestamp = utcnow w \<rparr>) = Inr ()"
    by (rule execute_scan_returns)
  then show "fst (trigger_scan cfg w g) =
     fst (execute_scan cfg w \<lparr> grams = g, timestamp = utcnow w \<rparr>)
       @ [Responded [(''status'', ''accepted'')]]"
    by (cases "execute_scan cfg w \<lparr> grams = g, timestamp = utcnow w \<rparr>")
       (simp add: trigger_scan_def Let_def)
next
  show "fst (trigger_scan default_settings station 120) =
       [ScanStarted ''session-1'' 120, UiPublish (station_result [apple_summary]),
        ScanFinished ''session-1'' 1, Responded [(''status'', ''accepted'')]]"
    by (simp add: pipeline_defs Let_def)
qed

end
